theory Spec2Isabelle
  imports Main
begin

section \<open>JavaScript values the access-control code inspects\<close>

text \<open>
  The TypeScript enums \<open>Permission\<close> and \<open>UserRole\<close> have string values, and every function
  of the registry takes the role as a plain \<open>string\<close> that is only cast to \<open>UserRole\<close>.
  At run time both are strings, so both are modelled as strings.
\<close>

type_synonym Permission = string

datatype js_error = TypeError | CollaboratorError | JsonWebTokenError | TokenExpiredError

text \<open>\<open>String.prototype.includes\<close>: the pattern occurs somewhere in the string.\<close>

fun starts_with :: "string \<Rightarrow> string \<Rightarrow> bool" where
  "starts_with s [] = True"
| "starts_with [] (p # ps) = False"
| "starts_with (c # cs) (p # ps) = (c = p \<and> starts_with cs ps)"

fun str_includes :: "string \<Rightarrow> string \<Rightarrow> bool" where
  "str_includes [] p = (p = [])"
| "str_includes (c # cs) p = (starts_with (c # cs) p \<or> str_includes cs p)"

text \<open>\<open>Array.prototype.join\<close> on an array of strings.\<close>

fun join :: "string \<Rightarrow> string list \<Rightarrow> string" where
  "join sep [] = []"
| "join sep [x] = x"
| "join sep (x # y # ys) = x @ sep @ join sep (y # ys)"

text \<open>\<open>String.prototype.split\<close> with the one-character separator \<open>' '\<close>.\<close>

fun split_space :: "string \<Rightarrow> string list" where
  "split_space [] = [[]]"
| "split_space (c # cs) =
     (if c = CHR '' '' then [] # split_space cs
      else (case split_space cs of
              [] \<Rightarrow> [[c]]
            | w # ws \<Rightarrow> (c # w) # ws))"

section \<open>types/permissions.ts: the role-permission registry\<close>

definition USERS_READ_OWN :: Permission where "USERS_READ_OWN = ''users:read:own''"
definition USERS_WRITE_OWN :: Permission where "USERS_WRITE_OWN = ''users:write:own''"
definition USERS_READ_ALL :: Permission where "USERS_READ_ALL = ''users:read:all''"
definition USERS_WRITE_ALL :: Permission where "USERS_WRITE_ALL = ''users:write:all''"
definition USERS_DELETE_ALL :: Permission where "USERS_DELETE_ALL = ''users:delete:all''"
definition CONTENT_CREATE_OWN :: Permission where "CONTENT_CREATE_OWN = ''content:create:own''"
definition CONTENT_WRITE_OWN :: Permission where "CONTENT_WRITE_OWN = ''content:write:own''"
definition CONTENT_DELETE_OWN :: Permission where "CONTENT_DELETE_OWN = ''content:delete:own''"
definition CONTENT_READ_ALL :: Permission where "CONTENT_READ_ALL = ''content:read:all''"
definition CONTENT_WRITE_ALL :: Permission where "CONTENT_WRITE_ALL = ''content:write:all''"
definition CONTENT_DELETE_ALL :: Permission where "CONTENT_DELETE_ALL = ''content:delete:all''"
definition SETTINGS_MANAGE :: Permission where "SETTINGS_MANAGE = ''settings:manage''"
definition ANALYTICS_VIEW :: Permission where "ANALYTICS_VIEW = ''analytics:view''"

lemmas Permission_defs =
  USERS_READ_OWN_def USERS_WRITE_OWN_def USERS_READ_ALL_def USERS_WRITE_ALL_def
  USERS_DELETE_ALL_def CONTENT_CREATE_OWN_def CONTENT_WRITE_OWN_def CONTENT_DELETE_OWN_def
  CONTENT_READ_ALL_def CONTENT_WRITE_ALL_def CONTENT_DELETE_ALL_def SETTINGS_MANAGE_def
  ANALYTICS_VIEW_def

definition USER :: string where "USER = ''user''"
definition ADMIN :: string where "ADMIN = ''admin''"
definition INFLUENCER :: string where "INFLUENCER = ''influencer''"

lemmas UserRole_defs = USER_def ADMIN_def INFLUENCER_def

text \<open>
  \<open>ROLE_PERMISSIONS\<close> is an object literal: its own properties are the three role keys, in
  the order of the source, and it inherits from \<open>Object.prototype\<close>.
\<close>

definition ROLE_PERMISSIONS :: "(string \<times> Permission list) list" where
  "ROLE_PERMISSIONS =
     [(ADMIN,
        [USERS_READ_OWN, USERS_WRITE_OWN, USERS_READ_ALL, USERS_WRITE_ALL, USERS_DELETE_ALL,
         CONTENT_CREATE_OWN, CONTENT_WRITE_OWN, CONTENT_DELETE_OWN, CONTENT_READ_ALL,
         CONTENT_WRITE_ALL, CONTENT_DELETE_ALL, SETTINGS_MANAGE, ANALYTICS_VIEW]),
      (INFLUENCER,
        [USERS_READ_OWN, USERS_WRITE_OWN, CONTENT_CREATE_OWN, CONTENT_WRITE_OWN,
         CONTENT_DELETE_OWN, CONTENT_READ_ALL]),
      (USER,
        [USERS_READ_OWN, USERS_WRITE_OWN, CONTENT_CREATE_OWN, CONTENT_WRITE_OWN,
         CONTENT_DELETE_OWN, CONTENT_READ_ALL])]"

text \<open>
  What the bracket read \<open>obj[key]\<close> yields on such an object literal: the array stored under
  an own key; for a key that is not an own property, the member that the object inherits from
  \<open>Object.prototype\<close> (eleven functions and the \<open>__proto__\<close> accessor, all of them truthy and
  none of them an array); \<open>undefined\<close> for every other key.
\<close>

datatype registry_value = Undefined | PermArray "Permission list" | Inherited string

definition object_prototype_keys :: "string list" where
  "object_prototype_keys =
     [''constructor'', ''__defineGetter__'', ''__defineSetter__'', ''hasOwnProperty'',
      ''__lookupGetter__'', ''__lookupSetter__'', ''isPrototypeOf'', ''propertyIsEnumerable'',
      ''toString'', ''valueOf'', ''__proto__'', ''toLocaleString'']"

definition object_get :: "(string \<times> Permission list) list \<Rightarrow> string \<Rightarrow> registry_value" where
  "object_get obj key =
     (case map_of obj key of
        Some ps \<Rightarrow> PermArray ps
      | None \<Rightarrow> if key \<in> set object_prototype_keys then Inherited key else Undefined)"

text \<open>
  \<open>roleHasPermission\<close>: a falsy read returns false; otherwise \<open>.includes(permission)\<close> is
  called on the value read. An array answers by membership; an inherited member has no
  \<open>includes\<close> method, and calling \<open>undefined\<close> raises a TypeError.
\<close>

definition roleHasPermission :: "string \<Rightarrow> Permission \<Rightarrow> js_error + bool" where
  "roleHasPermission roleName permission =
     (case object_get ROLE_PERMISSIONS roleName of
        Undefined \<Rightarrow> Inr False
      | PermArray ps \<Rightarrow> Inr (permission \<in> set ps)
      | Inherited m \<Rightarrow> Inl TypeError)"

definition isAdmin :: "string \<Rightarrow> bool" where
  "isAdmin roleName = (roleName = ADMIN)"

section \<open>utils/permissions.ts: the authorization engine\<close>

record User =
  userId :: string
  email :: string
  role :: string

text \<open>
  A resource is \<open>{ ownerId?: string, ... }\<close>; the engine reads \<open>ownerId\<close> only. A missing
  \<open>ownerId\<close> is \<open>None\<close>, a \<open>null\<close> resource is \<open>None\<close> at the type \<open>Resource option\<close>.
\<close>

record Resource =
  ownerId :: "string option"

text \<open>JavaScript truthiness of an optional string: \<open>undefined\<close> and \<open>''\<close> are falsy.\<close>

fun truthy_opt :: "string option \<Rightarrow> bool" where
  "truthy_opt None = False"
| "truthy_opt (Some s) = (s \<noteq> [])"

definition canAccessResource :: "User \<Rightarrow> Resource option \<Rightarrow> Permission \<Rightarrow> js_error + bool" where
  "canAccessResource user resource action =
     (if isAdmin (role user) then Inr True
      else (case roleHasPermission (role user) action of
              Inl e \<Rightarrow> Inl e
            | Inr held \<Rightarrow>
                if \<not> held then Inr False
                else if str_includes action '':own'' then
                  (case resource of
                     None \<Rightarrow> Inr False
                   | Some r \<Rightarrow>
                       if \<not> truthy_opt (ownerId r) then Inr False
                       else Inr (ownerId r = Some (userId user)))
                else Inr True))"

definition isResourceOwner :: "string \<Rightarrow> string option \<Rightarrow> bool" where
  "isResourceOwner uid resourceOwnerId =
     (if \<not> truthy_opt resourceOwnerId then False else Some uid = resourceOwnerId)"

definition hasRole :: "User \<Rightarrow> string list \<Rightarrow> bool" where
  "hasRole user roles = (role user \<in> set roles)"

definition canAccessResourceOrOwn ::
    "User \<Rightarrow> Resource option \<Rightarrow> Permission \<Rightarrow> Permission \<Rightarrow> js_error + bool" where
  "canAccessResourceOrOwn user resource ownAction allAction =
     (if isAdmin (role user) then Inr True
      else (case resource of
              None \<Rightarrow> roleHasPermission (role user) allAction
            | Some r \<Rightarrow>
                if truthy_opt (ownerId r) \<and> isResourceOwner (userId user) (ownerId r)
                then roleHasPermission (role user) ownAction
                else roleHasPermission (role user) allAction))"

text \<open>
  \<open>getRolePermissions\<close> reads a local object literal with the same three keys and returns
  \<open>permissions[role] || []\<close>: the value read when it is truthy, the empty array otherwise.
\<close>

definition getRolePermissions :: "string \<Rightarrow> registry_value" where
  "getRolePermissions roleName =
     (case object_get
             [(ADMIN,
                [USERS_READ_OWN, USERS_WRITE_OWN, USERS_READ_ALL, USERS_WRITE_ALL,
                 USERS_DELETE_ALL, CONTENT_CREATE_OWN, CONTENT_WRITE_OWN, CONTENT_DELETE_OWN,
                 CONTENT_READ_ALL, CONTENT_WRITE_ALL, CONTENT_DELETE_ALL, SETTINGS_MANAGE,
                 ANALYTICS_VIEW]),
              (INFLUENCER,
                [USERS_READ_OWN, USERS_WRITE_OWN, CONTENT_CREATE_OWN, CONTENT_WRITE_OWN,
                 CONTENT_DELETE_OWN, CONTENT_READ_ALL]),
              (USER,
                [USERS_READ_OWN, USERS_WRITE_OWN, CONTENT_CREATE_OWN, CONTENT_WRITE_OWN,
                 CONTENT_DELETE_OWN, CONTENT_READ_ALL])]
             roleName of
        Undefined \<Rightarrow> PermArray []
      | v \<Rightarrow> v)"

section \<open>middleware/authMiddleware.ts: the request gate\<close>

text \<open>
  Values a request parameter or a parsed JSON body field can hold. A number matters only
  through its truthiness and its type tag, so integers stand for numbers.
\<close>

datatype js_value =
  JUndefined | JNull | JBool bool | JNum int | JStr string | JArr "js_value list" | JObj

fun truthy :: "js_value \<Rightarrow> bool" where
  "truthy JUndefined = False"
| "truthy JNull = False"
| "truthy (JBool b) = b"
| "truthy (JNum n) = (n \<noteq> 0)"
| "truthy (JStr s) = (s \<noteq> [])"
| "truthy (JArr xs) = True"
| "truthy JObj = True"

fun typeof :: "js_value \<Rightarrow> string" where
  "typeof JUndefined = ''undefined''"
| "typeof JNull = ''object''"
| "typeof (JBool b) = ''boolean''"
| "typeof (JNum n) = ''number''"
| "typeof (JStr s) = ''string''"
| "typeof (JArr xs) = ''object''"
| "typeof JObj = ''object''"

text \<open>
  The part of an Express request the middleware reads: the \<open>Authorization\<close> header,
  \<open>req.user\<close>, and what \<open>req.params[k]\<close> and \<open>req.body[k]\<close> yield for a name \<open>k\<close>
  (\<open>JUndefined\<close> where nothing is stored). \<open>req.body\<close> is the object the body parser
  leaves, or \<open>undefined\<close> (\<open>None\<close>) on a request whose body was not parsed.
\<close>

record Request =
  authorization :: "string option"
  reqUser :: "User option"
  reqParams :: "string \<Rightarrow> js_value"
  reqBody :: "(string \<Rightarrow> js_value) option"

text \<open>
  A middleware either calls \<open>next()\<close>, handing the request on, or answers with
  \<open>res.status(code).json({ success: false, message })\<close> and returns.
\<close>

datatype Outcome = Next Request | Respond nat string

fun passes :: "Outcome \<Rightarrow> bool" where
  "passes (Next req) = True"
| "passes (Respond code message) = False"

text \<open>
  Express runs the middleware of a route in order; each one runs only if its predecessor
  called \<open>next()\<close>.
\<close>

fun run_chain :: "(Request \<Rightarrow> Outcome) list \<Rightarrow> Request \<Rightarrow> Outcome" where
  "run_chain [] req = Next req"
| "run_chain (m # ms) req =
     (case m req of
        Next req' \<Rightarrow> run_chain ms req'
      | Respond code message \<Rightarrow> Respond code message)"

text \<open>
  The record \<open>prisma.user.findUnique\<close> selects. The lookup is a collaborator: it returns a
  record, \<open>null\<close>, or throws.
\<close>

record StoredUser =
  dbId :: string
  dbEmail :: string
  dbRole :: string
  isApproved :: bool

type_synonym JWTPayload = User

text \<open>
  \<open>authenticate\<close> (the approval-aware version). \<open>verifyToken\<close> is \<open>jwtService.verifyToken\<close>,
  which returns the decoded payload or \<open>null\<close>; \<open>findUnique\<close> is the store lookup by id. The
  header is \<open>None\<close> when the request has none, and \<open>!authHeader\<close> is true of a missing header
  and of the empty string. An exception anywhere in the body is caught and answered with 401
  \<open>Authentication failed\<close>.
\<close>

definition authenticate ::
    "(string \<Rightarrow> JWTPayload option) \<Rightarrow> (string \<Rightarrow> js_error + StoredUser option) \<Rightarrow>
     Request \<Rightarrow> Outcome" where
  "authenticate verifyToken findUnique req =
     (case authorization req of
        None \<Rightarrow> Respond 401 ''No token provided. Authorization header is required.''
      | Some authHeader \<Rightarrow>
          if authHeader = [] then
            Respond 401 ''No token provided. Authorization header is required.''
          else
            let parts = split_space authHeader in
            if length parts \<noteq> 2 \<or> parts ! 0 \<noteq> ''Bearer'' then
              Respond 401 ''Invalid token format. Use: Bearer <token>''
            else
              (case verifyToken (parts ! 1) of
                 None \<Rightarrow> Respond 401 ''Invalid or expired token''
               | Some decoded \<Rightarrow>
                   (case findUnique (userId decoded) of
                      Inl e \<Rightarrow> Respond 401 ''Authentication failed''
                    | Inr None \<Rightarrow> Respond 401 ''User not found''
                    | Inr (Some stored) \<Rightarrow>
                        if dbRole stored = ''influencer'' \<and> \<not> isApproved stored then
                          Respond 403
                            ''Your account is pending approval. Please wait for an admin to approve your account.''
                        else
                          Next (req\<lparr>reqUser :=
                            Some \<lparr>userId = dbId stored, email = dbEmail stored,
                                  role = dbRole stored\<rparr>\<rparr>))))"

definition authorize :: "string list \<Rightarrow> Request \<Rightarrow> Outcome" where
  "authorize roles req =
     (case reqUser req of
        None \<Rightarrow> Respond 401 ''Authentication required''
      | Some u \<Rightarrow>
          if role u \<notin> set roles then
            Respond 403 (''Insufficient permissions. Required roles: '' @ join '', '' roles)
          else Next req)"

text \<open>
  The resource identifier of \<open>requireOwnershipOrRole\<close>:
  \<open>paramValue = req.params[p] || req.body[p]\<close>, then the first element when \<open>paramValue\<close> is
  an array (\<open>undefined\<close> for an empty array). The name \<open>p\<close> is the first argument of
  \<open>requireOwnershipOrRole\<close>, which a caller may leave at its default \<open>'id'\<close>; the other
  arguments are the roles that bypass the ownership check. The right operand of \<open>||\<close> is
  evaluated only when \<open>req.params[p]\<close> is falsy, and reading a property of an undefined
  \<open>req.body\<close> raises a TypeError; nothing in the middleware catches it.
\<close>

definition paramValue :: "string \<Rightarrow> Request \<Rightarrow> js_error + js_value" where
  "paramValue resourceIdParam req =
     (if truthy (reqParams req resourceIdParam) then Inr (reqParams req resourceIdParam)
      else (case reqBody req of
              None \<Rightarrow> Inl TypeError
            | Some body \<Rightarrow> Inr (body resourceIdParam)))"

definition resourceId :: "string \<Rightarrow> Request \<Rightarrow> js_error + js_value" where
  "resourceId resourceIdParam req =
     (case paramValue resourceIdParam req of
        Inl e \<Rightarrow> Inl e
      | Inr (JArr []) \<Rightarrow> Inr JUndefined
      | Inr (JArr (x # xs)) \<Rightarrow> Inr x
      | Inr v \<Rightarrow> Inr v)"

definition requireOwnershipOrRole ::
    "string \<Rightarrow> string list \<Rightarrow> Request \<Rightarrow> js_error + Outcome" where
  "requireOwnershipOrRole resourceIdParam allowedRoles req =
     (case reqUser req of
        None \<Rightarrow> Inr (Respond 401 ''Authentication required'')
      | Some u \<Rightarrow>
          if isAdmin (role u) then Inr (Next req)
          else if length allowedRoles > 0 \<and> role u \<in> set allowedRoles then Inr (Next req)
          else
            (case resourceId resourceIdParam req of
               Inl e \<Rightarrow> Inl e
             | Inr rid \<Rightarrow>
                 if \<not> truthy rid \<or> typeof rid \<noteq> ''string'' then
                   Inr (Respond 400 ''Resource ID is required'')
                 else if rid = JStr (userId u) then Inr (Next req)
                 else Inr (Respond 403 ''You do not have permission to access this resource'')))"

definition requireAnyRole :: "string list \<Rightarrow> Request \<Rightarrow> Outcome" where
  "requireAnyRole roles req =
     (case reqUser req of
        None \<Rightarrow> Respond 401 ''Authentication required''
      | Some u \<Rightarrow>
          if isAdmin (role u) then Next req
          else if role u \<notin> set roles then
            Respond 403 (''Insufficient permissions. Required one of: '' @ join '', '' roles)
          else Next req)"

definition requireAllRoles :: "string list \<Rightarrow> Request \<Rightarrow> Outcome" where
  "requireAllRoles roles req =
     (case reqUser req of
        None \<Rightarrow> Respond 401 ''Authentication required''
      | Some u \<Rightarrow>
          if isAdmin (role u) then Next req
          else if role u \<notin> set roles then
            Respond 403 (''Insufficient permissions. Required all of: '' @ join '', '' roles)
          else Next req)"

section \<open>services/jwtService.ts: the token codec\<close>

text \<open>
  The user record \<open>generateToken\<close> receives (\<open>UserWithoutPassword\<close> of the user service). Its
  fields \<open>id\<close>, \<open>email\<close> and \<open>role\<close> are named \<open>user_id\<close>, \<open>user_email\<close> and \<open>user_role\<close>
  here; the two dates are milliseconds since the epoch.
\<close>

record UserWithoutPassword =
  user_id :: string
  user_email :: string
  phoneNumber :: "string option"
  company :: "string option"
  fullName :: string
  user_role :: string
  createdAt :: nat
  updatedAt :: nat

text \<open>
  What a token carries: the payload \<open>{ userId, email, role }\<close> with the issued-at and expiry
  times, in seconds. A token string is represented by what it parses to: claims and a
  signature, or nothing (\<open>Malformed\<close>).
\<close>

record Claims = User +
  iat :: nat
  exp :: nat

datatype token = Signed Claims string | Malformed string

text \<open>
  Modelled from the spec: \<open>jwt.sign\<close> and \<open>jwt.verify\<close> of the \<open>jsonwebtoken\<close> package, which
  \<open>jwtService.ts\<close> imports and the repository does not contain. Issuing serialises the
  payload with an expiry, the configured duration after the time of issue, and signs it with
  the secret; verifying checks the signature and the expiry and fails on a malformed token,
  a signature mismatch or an elapsed expiry. The signing function \<open>mac\<close> (secret and claims to
  signature) and the clock reading \<open>now\<close> are parameters. As in the package, an empty secret
  is refused by both functions, the signature is checked before the expiry, and a token is
  expired from the second \<open>exp\<close> on.
\<close>

definition jwt_sign ::
    "(string \<Rightarrow> Claims \<Rightarrow> string) \<Rightarrow> nat \<Rightarrow> User \<Rightarrow> string \<Rightarrow> nat \<Rightarrow> js_error + token" where
  "jwt_sign mac now payload secretOrKey expiresInSeconds =
     (if secretOrKey = [] then Inl JsonWebTokenError
      else
        let claims = \<lparr>userId = userId payload, email = email payload, role = role payload,
                      iat = now, exp = now + expiresInSeconds\<rparr>
        in Inr (Signed claims (mac secretOrKey claims)))"

text \<open>
  Modelled from the spec: \<open>jwt.verify\<close> of the same package, absent from the repository. It
  returns the decoded claims, or throws on a malformed token, a signature that is not the one
  \<open>mac\<close> gives for the secret and the claims, or an elapsed expiry.
\<close>

definition jwt_verify ::
    "(string \<Rightarrow> Claims \<Rightarrow> string) \<Rightarrow> nat \<Rightarrow> token \<Rightarrow> string \<Rightarrow> js_error + Claims" where
  "jwt_verify mac now tok secretOrKey =
     (if secretOrKey = [] then Inl JsonWebTokenError
      else (case tok of
              Malformed s \<Rightarrow> Inl JsonWebTokenError
            | Signed claims signature \<Rightarrow>
                if signature \<noteq> mac secretOrKey claims then Inl JsonWebTokenError
                else if exp claims \<le> now then Inl TokenExpiredError
                else Inr claims))"

text \<open>
  The service object: \<open>secret\<close> and \<open>expiresIn\<close> are set once by the constructor from
  \<open>process.env.JWT_SECRET || 'your-secret-key-change-in-production'\<close> and
  \<open>process.env.JWT_EXPIRES_IN || '7d'\<close>. The first argument is the variable \<open>JWT_SECRET\<close>
  (\<open>None\<close> when unset); the second is the time span \<open>JWT_EXPIRES_IN\<close> denotes, in seconds
  (\<open>None\<close> when unset or empty), and seven days are 604800 seconds.
\<close>

record JWTService =
  secret :: string
  expiresIn :: nat

definition new_JWTService :: "string option \<Rightarrow> nat option \<Rightarrow> JWTService" where
  "new_JWTService JWT_SECRET JWT_EXPIRES_IN =
     \<lparr>secret = (if truthy_opt JWT_SECRET then the JWT_SECRET
                 else ''your-secret-key-change-in-production''),
      expiresIn = (case JWT_EXPIRES_IN of None \<Rightarrow> 604800 | Some seconds \<Rightarrow> seconds)\<rparr>"

text \<open>
  \<open>generateToken\<close> builds the payload from the user's \<open>id\<close>, \<open>email\<close> and \<open>role\<close> and signs it;
  an exception of \<open>jwt.sign\<close> is not caught. \<open>verifyToken\<close> returns what \<open>jwt.verify\<close> decodes,
  and \<open>null\<close> when it throws.
\<close>

definition generateToken ::
    "(string \<Rightarrow> Claims \<Rightarrow> string) \<Rightarrow> JWTService \<Rightarrow> nat \<Rightarrow> UserWithoutPassword \<Rightarrow>
     js_error + token" where
  "generateToken mac this now user =
     jwt_sign mac now
       \<lparr>userId = user_id user, email = user_email user, role = user_role user\<rparr>
       (secret this) (expiresIn this)"

definition verifyToken ::
    "(string \<Rightarrow> Claims \<Rightarrow> string) \<Rightarrow> JWTService \<Rightarrow> nat \<Rightarrow> token \<Rightarrow> Claims option" where
  "verifyToken mac this now tok =
     (case jwt_verify mac now tok (secret this) of
        Inl e \<Rightarrow> None
      | Inr decoded \<Rightarrow> Some decoded)"

text \<open>A signing function and a user for concrete inputs.\<close>

definition tag_mac :: "string \<Rightarrow> Claims \<Rightarrow> string" where
  "tag_mac key claims = key @ ''|'' @ userId claims @ ''|'' @ email claims @ ''|'' @ role claims"

definition ina :: UserWithoutPassword where
  "ina = \<lparr>user_id = ''i1'', user_email = ''ina@example.com'', phoneNumber = None,
          company = Some ''Acme'', fullName = ''Ina Example'', user_role = ''influencer'',
          createdAt = 1700000000000, updatedAt = 1700000000000\<rparr>"

text \<open>Collaborators and request parts used at concrete inputs.\<close>

definition no_fields :: "string \<Rightarrow> js_value" where
  "no_fields k = JUndefined"

definition reject_every_token :: "string \<Rightarrow> JWTPayload option" where
  "reject_every_token token = None"

definition empty_store :: "string \<Rightarrow> js_error + StoredUser option" where
  "empty_store uid = Inr None"

definition blank_id_body :: "string \<Rightarrow> js_value" where
  "blank_id_body k = (if k = ''id'' then JStr '''' else JUndefined)"

definition id_params :: "string \<Rightarrow> string \<Rightarrow> js_value" where
  "id_params v k = (if k = ''id'' then JStr v else JUndefined)"

definition accept_tok1 :: "string \<Rightarrow> JWTPayload option" where
  "accept_tok1 token =
     (if token = ''tok1''
      then Some \<lparr>userId = ''i1'', email = ''ina@example.com'', role = ''influencer''\<rparr>
      else None)"

definition store_with :: "bool \<Rightarrow> string \<Rightarrow> js_error + StoredUser option" where
  "store_with approved uid =
     (if uid = ''i1''
      then Inr (Some \<lparr>dbId = ''i1'', dbEmail = ''ina@example.com'', dbRole = ''influencer'',
                       isApproved = approved\<rparr>)
      else Inr None)"

definition request_of :: "string option \<Rightarrow> User option \<Rightarrow> Request" where
  "request_of header u =
     \<lparr>authorization = header, reqUser = u, reqParams = no_fields, reqBody = Some no_fields\<rparr>"

definition admin1 :: User where
  "admin1 = \<lparr>userId = ''a1'', email = ''root@example.com'', role = ''admin''\<rparr>"

definition user1 :: User where
  "user1 = \<lparr>userId = ''u1'', email = ''u1@example.com'', role = ''user''\<rparr>"

fun status_code :: "Outcome \<Rightarrow> nat option" where
  "status_code (Next req) = None"
| "status_code (Respond code message) = Some code"

text \<open>The permissions of the enumeration whose scope is \<open>own\<close>.\<close>

definition own_scoped :: "Permission list" where
  "own_scoped =
     [USERS_READ_OWN, USERS_WRITE_OWN, CONTENT_CREATE_OWN, CONTENT_WRITE_OWN,
      CONTENT_DELETE_OWN]"

section \<open>The registry on role strings outside the enumeration\<close>

lemma object_get_unknown:
  "roleName \<notin> {''user'', ''admin'', ''influencer''} \<Longrightarrow>
   roleName \<notin> set object_prototype_keys \<Longrightarrow>
   object_get ROLE_PERMISSIONS roleName = Undefined"
  by (simp add: object_get_def ROLE_PERMISSIONS_def UserRole_defs)

lemma roleHasPermission_unknown:
  "roleName \<notin> {''user'', ''admin'', ''influencer''} \<Longrightarrow>
   roleName \<notin> set object_prototype_keys \<Longrightarrow>
   roleHasPermission roleName P = Inr False"
  by (simp add: roleHasPermission_def object_get_unknown)

lemma getRolePermissions_unknown:
  "roleName \<notin> {''user'', ''admin'', ''influencer''} \<Longrightarrow>
   roleName \<notin> set object_prototype_keys \<Longrightarrow>
   getRolePermissions roleName = PermArray []"
  by (simp add: getRolePermissions_def object_get_def UserRole_defs)

lemma roleHasPermission_inherited:
  "roleName \<in> set object_prototype_keys \<Longrightarrow> roleHasPermission roleName P = Inl TypeError"
  by (auto simp: roleHasPermission_def object_get_def ROLE_PERMISSIONS_def UserRole_defs
      object_prototype_keys_def)

text \<open>
  C8. Deny-by-default totality of the registry, evaluated at the role string
  \<open>constructor\<close>: it is none of \<open>user\<close>, \<open>admin\<close>, \<open>influencer\<close>, yet \<open>roleHasPermission\<close>
  raises a TypeError instead of returning false, and \<open>getRolePermissions\<close> returns the
  inherited member instead of the empty list.
\<close>

theorem registry_inherited_key:
  "''constructor'' \<notin> {''user'', ''admin'', ''influencer''} \<and>
   roleHasPermission ''constructor'' USERS_READ_OWN = Inl TypeError \<and>
   getRolePermissions ''constructor'' = Inherited ''constructor'' \<and>
   getRolePermissions ''constructor'' \<noteq> PermArray []"
  by (simp add: roleHasPermission_def getRolePermissions_def object_get_def
      ROLE_PERMISSIONS_def UserRole_defs object_prototype_keys_def)

section \<open>The engine: admin bypass\<close>

text \<open>
  C1. Admin bypass: for an identity whose role is \<open>'admin'\<close>, \<open>canAccessResource\<close> returns
  true for every permission string and every resource, \<open>null\<close> included. The answer does not
  depend on the registry: it is the same for a permission that \<open>roleHasPermission\<close> denies to
  \<open>'admin'\<close>.
\<close>

theorem admin_bypass:
  "role user = ''admin'' \<Longrightarrow> canAccessResource user resource P = Inr True"
  by (simp add: canAccessResource_def isAdmin_def ADMIN_def)

theorem admin_bypass_witness:
  "role \<lparr>userId = ''a1'', email = ''root@example.com'', role = ''admin''\<rparr> = ''admin'' \<and>
   roleHasPermission ''admin'' ''reports:export:all'' = Inr False \<and>
   canAccessResource \<lparr>userId = ''a1'', email = ''root@example.com'', role = ''admin''\<rparr>
     None ''reports:export:all'' = Inr True \<and>
   canAccessResource \<lparr>userId = ''a1'', email = ''root@example.com'', role = ''admin''\<rparr>
     (Some \<lparr>ownerId = Some ''u2''\<rparr>) ''reports:export:all'' = Inr True"
  using admin_bypass [of "\<lparr>userId = ''a1'', email = ''root@example.com'', role = ''admin''\<rparr>"
      None "''reports:export:all''"]
    admin_bypass [of "\<lparr>userId = ''a1'', email = ''root@example.com'', role = ''admin''\<rparr>"
      "Some \<lparr>ownerId = Some ''u2''\<rparr>" "''reports:export:all''"]
  by (simp add: roleHasPermission_def object_get_def ROLE_PERMISSIONS_def UserRole_defs
      Permission_defs)

section \<open>The engine: the either-scope check\<close>

lemma either_scope_example:
  "\<not> isAdmin ''user'' \<and>
   roleHasPermission ''user'' CONTENT_READ_ALL = Inr True \<and>
   roleHasPermission ''user'' SETTINGS_MANAGE = Inr False \<and>
   canAccessResourceOrOwn \<lparr>userId = ''u1'', email = ''u1@example.com'', role = ''user''\<rparr>
     (Some \<lparr>ownerId = Some ''u1''\<rparr>) SETTINGS_MANAGE CONTENT_READ_ALL = Inr False \<and>
   canAccessResource \<lparr>userId = ''u1'', email = ''u1@example.com'', role = ''user''\<rparr>
     (Some \<lparr>ownerId = Some ''u1''\<rparr>) CONTENT_READ_ALL = Inr True \<and>
   canAccessResourceOrOwn \<lparr>userId = ''u1'', email = ''u1@example.com'', role = ''user''\<rparr>
     (Some \<lparr>ownerId = Some ''u2''\<rparr>) SETTINGS_MANAGE CONTENT_READ_ALL = Inr True"
  by (simp add: canAccessResourceOrOwn_def canAccessResource_def isResourceOwner_def
      isAdmin_def roleHasPermission_def object_get_def ROLE_PERMISSIONS_def UserRole_defs
      Permission_defs)

text \<open>
  C10. Ownership can strictly reduce access under the either-scope check: there are a
  non-admin identity, a resource it owns and a pair of permissions, of which its role holds
  \<open>allAction\<close> and not \<open>ownAction\<close>, such that \<open>canAccessResourceOrOwn\<close> returns false while
  \<open>canAccessResource\<close> on \<open>allAction\<close> returns true; for the same identity and permissions
  and a resource owned by \<open>other\<close>, \<open>canAccessResourceOrOwn\<close> returns true.
\<close>

theorem ownership_can_reduce_access:
  "\<exists>user resource ownAction allAction other.
     \<not> isAdmin (role user) \<and>
     roleHasPermission (role user) allAction = Inr True \<and>
     roleHasPermission (role user) ownAction = Inr False \<and>
     ownerId resource = Some (userId user) \<and>
     canAccessResourceOrOwn user (Some resource) ownAction allAction = Inr False \<and>
     canAccessResource user (Some resource) allAction = Inr True \<and>
     other \<noteq> userId user \<and>
     canAccessResourceOrOwn user (Some (resource\<lparr>ownerId := Some other\<rparr>)) ownAction allAction
       = Inr True"
proof -
  let ?u = "\<lparr>userId = ''u1'', email = ''u1@example.com'', role = ''user''\<rparr>"
  let ?r = "\<lparr>ownerId = Some ''u1''\<rparr>"
  have "\<not> isAdmin (role ?u) \<and>
     roleHasPermission (role ?u) CONTENT_READ_ALL = Inr True \<and>
     roleHasPermission (role ?u) SETTINGS_MANAGE = Inr False \<and>
     ownerId ?r = Some (userId ?u) \<and>
     canAccessResourceOrOwn ?u (Some ?r) SETTINGS_MANAGE CONTENT_READ_ALL = Inr False \<and>
     canAccessResource ?u (Some ?r) CONTENT_READ_ALL = Inr True \<and>
     ''u2'' \<noteq> userId ?u \<and>
     canAccessResourceOrOwn ?u (Some (?r\<lparr>ownerId := Some ''u2''\<rparr>))
       SETTINGS_MANAGE CONTENT_READ_ALL = Inr True"
    using either_scope_example by simp
  then show ?thesis by blast
qed

section \<open>The engine: the decision for a non-admin identity\<close>

text \<open>
  Every permission a role holds is one of the enumeration, and among those the test
  \<open>action.includes(':own')\<close> picks out exactly the own-scoped ones.
\<close>

lemma held_permission_enumerated:
  "roleHasPermission roleName P = Inr True \<Longrightarrow>
   P \<in> set (the (map_of ROLE_PERMISSIONS ADMIN))"
  by (auto simp: roleHasPermission_def object_get_def ROLE_PERMISSIONS_def split: if_splits)

lemma enumerated_scope:
  "list_all (\<lambda>P. str_includes P '':own'' = (P \<in> set own_scoped))
     (the (map_of ROLE_PERMISSIONS ADMIN))"
  unfolding ROLE_PERMISSIONS_def own_scoped_def Permission_defs UserRole_defs
  by simp

lemma held_permission_scope:
  "roleHasPermission roleName P = Inr True \<Longrightarrow>
   str_includes P '':own'' = (P \<in> set own_scoped)"
  using held_permission_enumerated [of roleName P] enumerated_scope
  by (simp only: list_all_iff)

text \<open>
  C2, as the code decides it. For a non-admin identity: when \<open>roleHasPermission\<close> returns
  false the result is false; when it returns true and the permission contains \<open>:own\<close>, the
  result is true exactly when the resource is not \<open>null\<close> and its \<open>ownerId\<close> is a non-empty
  string equal to \<open>userId\<close>; when it returns true and the permission does not contain
  \<open>:own\<close>, the result is true whatever the resource.
\<close>

theorem canAccessResource_non_admin:
  "role user \<noteq> ''admin'' \<Longrightarrow>
   (roleHasPermission (role user) action = Inr False \<longrightarrow>
      canAccessResource user resource action = Inr False) \<and>
   (roleHasPermission (role user) action = Inr True \<and> str_includes action '':own'' \<longrightarrow>
      canAccessResource user resource action =
        Inr (case resource of
               None \<Rightarrow> False
             | Some r \<Rightarrow> ownerId r = Some (userId user) \<and> userId user \<noteq> [])) \<and>
   (roleHasPermission (role user) action = Inr True \<and> \<not> str_includes action '':own'' \<longrightarrow>
      canAccessResource user resource action = Inr True)"
  by (auto simp: canAccessResource_def isAdmin_def ADMIN_def split: option.splits)

theorem canAccessResource_non_admin_witness:
  "canAccessResource user1 (Some \<lparr>ownerId = Some ''u1''\<rparr>) CONTENT_WRITE_OWN = Inr True \<and>
   canAccessResource user1 (Some \<lparr>ownerId = Some ''u2''\<rparr>) CONTENT_WRITE_OWN = Inr False \<and>
   canAccessResource user1 None CONTENT_WRITE_OWN = Inr False \<and>
   canAccessResource user1 None CONTENT_READ_ALL = Inr True \<and>
   canAccessResource user1 (Some \<lparr>ownerId = Some ''u2''\<rparr>) CONTENT_READ_ALL = Inr True \<and>
   canAccessResource user1 (Some \<lparr>ownerId = Some ''u1''\<rparr>) USERS_DELETE_ALL = Inr False"
proof -
  have na: "role user1 \<noteq> ''admin''"
    by (simp add: user1_def)
  have own: "roleHasPermission (role user1) CONTENT_WRITE_OWN = Inr True"
      "str_includes CONTENT_WRITE_OWN '':own''"
    by (simp_all add: user1_def roleHasPermission_def object_get_def ROLE_PERMISSIONS_def
        UserRole_defs Permission_defs)
  have rd: "roleHasPermission (role user1) CONTENT_READ_ALL = Inr True"
      "\<not> str_includes CONTENT_READ_ALL '':own''"
    by (simp_all add: user1_def roleHasPermission_def object_get_def ROLE_PERMISSIONS_def
        UserRole_defs Permission_defs)
  have del: "roleHasPermission (role user1) USERS_DELETE_ALL = Inr False"
    by (simp add: user1_def roleHasPermission_def object_get_def ROLE_PERMISSIONS_def
        UserRole_defs Permission_defs)
  have uid: "userId user1 = ''u1''"
    by (simp add: user1_def)
  show ?thesis
    using canAccessResource_non_admin [OF na, of CONTENT_WRITE_OWN "Some \<lparr>ownerId = Some ''u1''\<rparr>"]
      canAccessResource_non_admin [OF na, of CONTENT_WRITE_OWN "Some \<lparr>ownerId = Some ''u2''\<rparr>"]
      canAccessResource_non_admin [OF na, of CONTENT_WRITE_OWN None]
      canAccessResource_non_admin [OF na, of CONTENT_READ_ALL None]
      canAccessResource_non_admin [OF na, of CONTENT_READ_ALL "Some \<lparr>ownerId = Some ''u2''\<rparr>"]
      canAccessResource_non_admin [OF na, of USERS_DELETE_ALL "Some \<lparr>ownerId = Some ''u1''\<rparr>"]
      own rd del uid
    by simp
qed

text \<open>
  C2 as stated fails where \<open>ownerId\<close> and \<open>userId\<close> are both the empty string: the role holds
  the own-scoped permission, the resource is not \<open>null\<close>, its \<open>ownerId\<close> is present and equals
  \<open>userId\<close>, and the result is false, because \<open>!resource.ownerId\<close> is true of the empty
  string.
\<close>

theorem own_scope_empty_owner:
  "role \<lparr>userId = '''', email = ''x@example.com'', role = ''user''\<rparr> \<noteq> ''admin'' \<and>
   roleHasPermission ''user'' USERS_READ_OWN = Inr True \<and>
   str_includes USERS_READ_OWN '':own'' \<and>
   ownerId \<lparr>ownerId = Some ''''\<rparr>
     = Some (userId \<lparr>userId = '''', email = ''x@example.com'', role = ''user''\<rparr>) \<and>
   canAccessResource \<lparr>userId = '''', email = ''x@example.com'', role = ''user''\<rparr>
     (Some \<lparr>ownerId = Some ''''\<rparr>) USERS_READ_OWN = Inr False"
  by (simp add: canAccessResource_def isAdmin_def roleHasPermission_def object_get_def
      ROLE_PERMISSIONS_def UserRole_defs Permission_defs)

section \<open>The gate: role-only helpers and the admin identity\<close>

text \<open>
  For an authenticated identity with role \<open>admin\<close>, \<open>requireAnyRole\<close> hands the request on
  for every list of roles; \<open>authorize\<close> has no admin branch and hands it on exactly when the
  list contains \<open>admin\<close>.
\<close>

lemma requireAnyRole_admin:
  "reqUser req = Some u \<Longrightarrow> role u = ''admin'' \<Longrightarrow> requireAnyRole roles req = Next req"
  by (simp add: requireAnyRole_def isAdmin_def ADMIN_def)

lemma authorize_admin:
  "reqUser req = Some u \<Longrightarrow> role u = ''admin'' \<Longrightarrow>
   authorize roles req =
     (if ''admin'' \<in> set roles then Next req
      else Respond 403 (''Insufficient permissions. Required roles: '' @ join '', '' roles))"
  by (simp add: authorize_def)

text \<open>
  C3. Role-only gate helpers and the admin identity, evaluated at an admin identity and the
  role list \<open>user, influencer\<close>: \<open>requireAnyRole\<close> hands the request on, and \<open>authorize\<close>
  answers 403 instead of handing it on.
\<close>

theorem authorize_rejects_admin:
  "requireAnyRole [''user'', ''influencer'']
     \<lparr>authorization = None,
      reqUser = Some \<lparr>userId = ''a1'', email = ''root@example.com'', role = ''admin''\<rparr>,
      reqParams = no_fields, reqBody = Some no_fields\<rparr>
   = Next
     \<lparr>authorization = None,
      reqUser = Some \<lparr>userId = ''a1'', email = ''root@example.com'', role = ''admin''\<rparr>,
      reqParams = no_fields, reqBody = Some no_fields\<rparr> \<and>
   authorize [''user'', ''influencer'']
     \<lparr>authorization = None,
      reqUser = Some \<lparr>userId = ''a1'', email = ''root@example.com'', role = ''admin''\<rparr>,
      reqParams = no_fields, reqBody = Some no_fields\<rparr>
   = Respond 403 ''Insufficient permissions. Required roles: user, influencer''"
  by (simp add: authorize_def requireAnyRole_def isAdmin_def ADMIN_def)

section \<open>The token codec: round trip and expiry\<close>

lemma new_JWTService_secret: "secret (new_JWTService JWT_SECRET JWT_EXPIRES_IN) \<noteq> []"
  by (cases JWT_SECRET) (simp_all add: new_JWTService_def)

lemma generateToken_returns:
  "secret this \<noteq> [] \<Longrightarrow>
   generateToken mac this t0 user =
     Inr (Signed
       \<lparr>userId = user_id user, email = user_email user, role = user_role user,
        iat = t0, exp = t0 + expiresIn this\<rparr>
       (mac (secret this)
         \<lparr>userId = user_id user, email = user_email user, role = user_role user,
          iat = t0, exp = t0 + expiresIn this\<rparr>))"
  by (simp add: generateToken_def jwt_sign_def Let_def)

lemma verifyToken_signed:
  "secret this \<noteq> [] \<Longrightarrow>
   verifyToken mac this t1 (Signed claims (mac (secret this) claims)) =
     (if exp claims \<le> t1 then None else Some claims)"
  by (simp add: verifyToken_def jwt_verify_def)

lemma verifyToken_expired:
  "t0 + expiresIn (new_JWTService JWT_SECRET JWT_EXPIRES_IN) \<le> t1 \<Longrightarrow>
   generateToken mac (new_JWTService JWT_SECRET JWT_EXPIRES_IN) t0 user = Inr tok \<Longrightarrow>
   verifyToken mac (new_JWTService JWT_SECRET JWT_EXPIRES_IN) t1 tok = None"
  using generateToken_returns [OF new_JWTService_secret, of mac JWT_SECRET JWT_EXPIRES_IN t0 user]
    verifyToken_signed [OF new_JWTService_secret, of mac JWT_SECRET JWT_EXPIRES_IN t1]
  by auto

lemma verifyToken_malformed: "verifyToken mac this t1 (Malformed s) = None"
  by (simp add: verifyToken_def jwt_verify_def)

text \<open>
  C5. Token round trip: for the service the constructor builds from any environment, any
  signing function and any user record, \<open>generateToken\<close> at time \<open>t0\<close> returns a token, and
  \<open>verifyToken\<close> with the same service at a time \<open>t1\<close> before the token's expiry returns a
  payload that is not \<open>null\<close> and whose \<open>userId\<close>, \<open>email\<close> and \<open>role\<close> are the user's \<open>id\<close>,
  \<open>email\<close> and \<open>role\<close>; its other two fields are the issued-at and expiry times.
\<close>

theorem token_round_trip:
  "t1 < t0 + expiresIn (new_JWTService JWT_SECRET JWT_EXPIRES_IN) \<Longrightarrow>
   (case generateToken mac (new_JWTService JWT_SECRET JWT_EXPIRES_IN) t0 user of
      Inl e \<Rightarrow> False
    | Inr tok \<Rightarrow>
        verifyToken mac (new_JWTService JWT_SECRET JWT_EXPIRES_IN) t1 tok =
          Some \<lparr>userId = user_id user, email = user_email user, role = user_role user,
                iat = t0, exp = t0 + expiresIn (new_JWTService JWT_SECRET JWT_EXPIRES_IN)\<rparr>)"
  using generateToken_returns [OF new_JWTService_secret, of mac JWT_SECRET JWT_EXPIRES_IN t0 user]
    verifyToken_signed [OF new_JWTService_secret, of mac JWT_SECRET JWT_EXPIRES_IN t1]
  by simp

theorem token_round_trip_witness:
  "generateToken tag_mac (new_JWTService (Some ''s3cret'') None) 1000 ina =
     Inr (Signed
       \<lparr>userId = ''i1'', email = ''ina@example.com'', role = ''influencer'',
        iat = 1000, exp = 605800\<rparr>
       ''s3cret|i1|ina@example.com|influencer'') \<and>
   verifyToken tag_mac (new_JWTService (Some ''s3cret'') None) 605799
     (Signed
       \<lparr>userId = ''i1'', email = ''ina@example.com'', role = ''influencer'',
        iat = 1000, exp = 605800\<rparr>
       ''s3cret|i1|ina@example.com|influencer'') =
     Some \<lparr>userId = ''i1'', email = ''ina@example.com'', role = ''influencer'',
           iat = 1000, exp = 605800\<rparr>"
proof -
  have e: "expiresIn (new_JWTService (Some ''s3cret'') None) = 604800"
    by (simp add: new_JWTService_def)
  have t: "(605799::nat) < 1000 + expiresIn (new_JWTService (Some ''s3cret'') None)"
    by (simp add: e)
  have g: "generateToken tag_mac (new_JWTService (Some ''s3cret'') None) 1000 ina =
     Inr (Signed
       \<lparr>userId = ''i1'', email = ''ina@example.com'', role = ''influencer'',
        iat = 1000, exp = 605800\<rparr>
       ''s3cret|i1|ina@example.com|influencer'')"
    by (simp add: generateToken_def jwt_sign_def Let_def new_JWTService_def tag_mac_def ina_def)
  show ?thesis
    using token_round_trip [OF t, of tag_mac ina] g e
    by (simp add: ina_def)
qed

section \<open>The gate: identity resolution\<close>

lemma pending_only_when_unapproved:
  "authenticate verify findUnique req =
     Respond 403
       ''Your account is pending approval. Please wait for an admin to approve your account.'' \<Longrightarrow>
   \<exists>header decoded stored.
     authorization req = Some header \<and>
     length (split_space header) = 2 \<and> split_space header ! 0 = ''Bearer'' \<and>
     verify (split_space header ! 1) = Some decoded \<and>
     findUnique (userId decoded) = Inr (Some stored) \<and>
     dbRole stored = ''influencer'' \<and> \<not> isApproved stored"
  by (cases "authorization req")
     (auto simp: authenticate_def Let_def split: if_splits option.splits sum.splits)

text \<open>
  C4. Approval gate: when the header is \<open>Bearer <token>\<close>, the token verifies, and the
  stored record of the decoded user has role \<open>influencer\<close> and \<open>isApproved\<close> false,
  \<open>authenticate\<close> answers 403 with the pending-approval message, and no middleware placed
  after it on the route runs. With the same header and token, and a store in which the record
  has \<open>isApproved\<close> true, \<open>authenticate\<close> hands the request on with the stored identity
  attached.
\<close>

theorem approval_gate:
  "authorization req = Some header \<Longrightarrow>
   split_space header = [''Bearer'', token] \<Longrightarrow>
   verify token = Some decoded \<Longrightarrow>
   findUnique (userId decoded) = Inr (Some stored) \<Longrightarrow>
   dbRole stored = ''influencer'' \<Longrightarrow>
   \<not> isApproved stored \<Longrightarrow>
   findUnique' (userId decoded) = Inr (Some (stored\<lparr>isApproved := True\<rparr>)) \<Longrightarrow>
   authenticate verify findUnique req =
     Respond 403
       ''Your account is pending approval. Please wait for an admin to approve your account.'' \<and>
   run_chain (authenticate verify findUnique # gates) req =
     Respond 403
       ''Your account is pending approval. Please wait for an admin to approve your account.'' \<and>
   authenticate verify findUnique' req =
     Next (req\<lparr>reqUser :=
       Some \<lparr>userId = dbId stored, email = dbEmail stored, role = ''influencer''\<rparr>\<rparr>)"
proof -
  assume h: "authorization req = Some header" "split_space header = [''Bearer'', token]"
    "verify token = Some decoded" "findUnique (userId decoded) = Inr (Some stored)"
    "dbRole stored = ''influencer''" "\<not> isApproved stored"
    "findUnique' (userId decoded) = Inr (Some (stored\<lparr>isApproved := True\<rparr>))"
  from h(2) have ne: "header \<noteq> []"
    by auto
  have pending: "authenticate verify findUnique req =
     Respond 403
       ''Your account is pending approval. Please wait for an admin to approve your account.''"
    using h ne by (simp add: authenticate_def)
  have approved: "authenticate verify findUnique' req =
     Next (req\<lparr>reqUser :=
       Some \<lparr>userId = dbId stored, email = dbEmail stored, role = ''influencer''\<rparr>\<rparr>)"
    using h ne by (simp add: authenticate_def)
  from pending approved show ?thesis
    by simp
qed

theorem approval_gate_witness:
  "authenticate accept_tok1 (store_with False) (request_of (Some ''Bearer tok1'') None) =
     Respond 403
       ''Your account is pending approval. Please wait for an admin to approve your account.'' \<and>
   run_chain [authenticate accept_tok1 (store_with False), requireAnyRole [''influencer'']]
       (request_of (Some ''Bearer tok1'') None) =
     Respond 403
       ''Your account is pending approval. Please wait for an admin to approve your account.'' \<and>
   authenticate accept_tok1 (store_with True) (request_of (Some ''Bearer tok1'') None) =
     Next (request_of (Some ''Bearer tok1'')
       (Some \<lparr>userId = ''i1'', email = ''ina@example.com'', role = ''influencer''\<rparr>))"
proof -
  let ?stored = "\<lparr>dbId = ''i1'', dbEmail = ''ina@example.com'', dbRole = ''influencer'',
    isApproved = False\<rparr>"
  let ?decoded = "\<lparr>userId = ''i1'', email = ''ina@example.com'', role = ''influencer''\<rparr>"
  have h1: "authorization (request_of (Some ''Bearer tok1'') None) = Some ''Bearer tok1''"
    by (simp add: request_of_def)
  have h2: "split_space ''Bearer tok1'' = [''Bearer'', ''tok1'']"
    by simp
  have h3: "accept_tok1 ''tok1'' = Some ?decoded"
    by (simp add: accept_tok1_def)
  have h4: "store_with False (userId ?decoded) = Inr (Some ?stored)"
    by (simp add: store_with_def)
  have h5: "dbRole ?stored = ''influencer''"
    by simp
  have h6: "\<not> isApproved ?stored"
    by simp
  have h7: "store_with True (userId ?decoded) = Inr (Some (?stored\<lparr>isApproved := True\<rparr>))"
    by (simp add: store_with_def)
  show ?thesis
    using approval_gate [where req = "request_of (Some ''Bearer tok1'') None"
        and header = "''Bearer tok1''" and token = "''tok1''" and verify = accept_tok1
        and decoded = ?decoded and findUnique = "store_with False" and stored = ?stored
        and findUnique' = "store_with True" and gates = "[requireAnyRole [''influencer'']]",
        OF h1 h2 h3 h4 h5 h6 h7]
    by (simp add: request_of_def)
qed

text \<open>
  C6, as the code decides it. Whatever the token verification and the store would answer:
  the headers \<open>Token xyz\<close> and \<open>Bearer\<close> are answered with 401 and the invalid-format
  message; the empty header is answered with 401 and the no-token-provided message; none of
  the three is answered with the message of a token that fails verification.
\<close>

theorem malformed_header:
  "(authorization req = Some ''Token xyz'' \<or> authorization req = Some ''Bearer'' \<longrightarrow>
      authenticate verify findUnique req =
        Respond 401 ''Invalid token format. Use: Bearer <token>'') \<and>
   (authorization req = Some '''' \<longrightarrow>
      authenticate verify findUnique req =
        Respond 401 ''No token provided. Authorization header is required.'') \<and>
   (authorization req \<in> {Some ''Token xyz'', Some ''Bearer'', Some ''''} \<longrightarrow>
      authenticate verify findUnique req \<noteq> Respond 401 ''Invalid or expired token'')"
  by (auto simp: authenticate_def)

theorem malformed_header_witness:
  "authenticate accept_tok1 (store_with True) (request_of (Some ''Token xyz'') None) =
     Respond 401 ''Invalid token format. Use: Bearer <token>'' \<and>
   authenticate accept_tok1 (store_with True) (request_of (Some ''Bearer'') None) =
     Respond 401 ''Invalid token format. Use: Bearer <token>'' \<and>
   authenticate accept_tok1 (store_with True) (request_of (Some '''') None) =
     Respond 401 ''No token provided. Authorization header is required.''"
  using malformed_header [of "request_of (Some ''Token xyz'') None" accept_tok1 "store_with True"]
    malformed_header [of "request_of (Some ''Bearer'') None" accept_tok1 "store_with True"]
    malformed_header [of "request_of (Some '''') None" accept_tok1 "store_with True"]
  by (simp add: request_of_def)

text \<open>
  C6 as stated fails for the empty header: it is falsy, so the first guard answers with the
  no-token-provided message, which is not the invalid-format message.
\<close>

theorem empty_header_no_token:
  "authenticate reject_every_token empty_store
     \<lparr>authorization = Some '''', reqUser = None, reqParams = no_fields, reqBody = Some no_fields\<rparr>
   = Respond 401 ''No token provided. Authorization header is required.'' \<and>
   authenticate reject_every_token empty_store
     \<lparr>authorization = Some '''', reqUser = None, reqParams = no_fields, reqBody = Some no_fields\<rparr>
   \<noteq> Respond 401 ''Invalid token format. Use: Bearer <token>''"
  by (simp add: authenticate_def)

section \<open>The gate: ownership or role\<close>

text \<open>
  The identifier is read exactly when \<open>req.params[p]\<close> is truthy or \<open>req.body\<close> is defined.
  Where neither holds, a non-admin identity outside the bypass roles gets no answer from the
  middleware: the read raises a TypeError.
\<close>

lemma resourceId_returns:
  "(\<exists>v. resourceId p req = Inr v) = (truthy (reqParams req p) \<or> reqBody req \<noteq> None)"
  by (auto simp: resourceId_def paramValue_def split: option.splits js_value.splits list.splits)

lemma requireOwnershipOrRole_throws:
  "reqUser req = Some u \<Longrightarrow> role u \<noteq> ''admin'' \<Longrightarrow> role u \<notin> set allowedRoles \<Longrightarrow>
   \<not> truthy (reqParams req p) \<Longrightarrow> reqBody req = None \<Longrightarrow>
   requireOwnershipOrRole p allowedRoles req = Inl TypeError"
  by (simp add: requireOwnershipOrRole_def resourceId_def paramValue_def isAdmin_def ADMIN_def)

text \<open>
  C7, as the code decides it. For an authenticated identity: admin passes; otherwise a role
  in the bypass list passes; otherwise, where the resource identifier is read, it decides:
  anything but a string, and the empty string, are answered with 400; a non-empty string
  passes exactly when it equals \<open>userId\<close>, and is answered with 403 otherwise.
\<close>

theorem ownership_or_role_verdicts:
  "reqUser req = Some u \<Longrightarrow>
   (role u = ''admin'' \<longrightarrow> requireOwnershipOrRole p allowedRoles req = Inr (Next req)) \<and>
   (role u \<noteq> ''admin'' \<and> role u \<in> set allowedRoles \<longrightarrow>
      requireOwnershipOrRole p allowedRoles req = Inr (Next req)) \<and>
   (role u \<noteq> ''admin'' \<and> role u \<notin> set allowedRoles \<and> resourceId p req = Inr rid \<longrightarrow>
      requireOwnershipOrRole p allowedRoles req =
        Inr (case rid of
               JStr s \<Rightarrow>
                 if s = [] then Respond 400 ''Resource ID is required''
                 else if s = userId u then Next req
                 else Respond 403 ''You do not have permission to access this resource''
             | v \<Rightarrow> Respond 400 ''Resource ID is required''))"
  by (cases rid) (auto simp: requireOwnershipOrRole_def isAdmin_def ADMIN_def)

theorem ownership_or_role_verdicts_witness:
  "requireOwnershipOrRole ''id'' []
       ((request_of None (Some admin1))\<lparr>reqParams := id_params ''u1''\<rparr>)
     = Inr (Next ((request_of None (Some admin1))\<lparr>reqParams := id_params ''u1''\<rparr>)) \<and>
   requireOwnershipOrRole ''id'' [''user'']
       ((request_of None (Some user1))\<lparr>reqParams := id_params ''u2''\<rparr>)
     = Inr (Next ((request_of None (Some user1))\<lparr>reqParams := id_params ''u2''\<rparr>)) \<and>
   requireOwnershipOrRole ''id'' [''admin''] (request_of None (Some user1))
     = Inr (Respond 400 ''Resource ID is required'') \<and>
   requireOwnershipOrRole ''id'' [''admin'']
       ((request_of None (Some user1))\<lparr>reqParams := id_params ''u1'', reqBody := None\<rparr>)
     = Inr (Next
         ((request_of None (Some user1))\<lparr>reqParams := id_params ''u1'', reqBody := None\<rparr>)) \<and>
   requireOwnershipOrRole ''id'' [''admin'']
       ((request_of None (Some user1))\<lparr>reqParams := id_params ''u2''\<rparr>)
     = Inr (Respond 403 ''You do not have permission to access this resource'')"
proof -
  have a: "reqUser ((request_of None (Some admin1))\<lparr>reqParams := ps\<rparr>) = Some admin1" for ps
    by (simp add: request_of_def)
  have b: "reqUser ((request_of None (Some user1))\<lparr>reqParams := ps\<rparr>) = Some user1" for ps
    by (simp add: request_of_def)
  have b': "reqUser ((request_of None (Some user1))\<lparr>reqParams := ps, reqBody := None\<rparr>)
      = Some user1" for ps
    by (simp add: request_of_def)
  have c: "reqUser (request_of None (Some user1)) = Some user1"
    by (simp add: request_of_def)
  have ids: "resourceId ''id'' ((request_of None (Some user1))\<lparr>reqParams := id_params ''u2''\<rparr>)
      = Inr (JStr ''u2'')"
    by (simp add: resourceId_def paramValue_def request_of_def id_params_def no_fields_def)
  have ids': "resourceId ''id''
      ((request_of None (Some user1))\<lparr>reqParams := id_params ''u1'', reqBody := None\<rparr>)
      = Inr (JStr ''u1'')"
    by (simp add: resourceId_def paramValue_def request_of_def id_params_def no_fields_def)
  have none: "resourceId ''id'' (request_of None (Some user1)) = Inr JUndefined"
    by (simp add: resourceId_def paramValue_def request_of_def no_fields_def)
  show ?thesis
    using ownership_or_role_verdicts [OF a [of "id_params ''u1''"],
        where p = "''id''" and allowedRoles = "[]"]
      ownership_or_role_verdicts [OF b [of "id_params ''u2''"],
        where p = "''id''" and allowedRoles = "[''user'']"]
      ownership_or_role_verdicts [OF c, where p = "''id''" and allowedRoles = "[''admin'']"
        and rid = JUndefined]
      ownership_or_role_verdicts [OF b' [of "id_params ''u1''"],
        where p = "''id''" and allowedRoles = "[''admin'']" and rid = "JStr ''u1''"]
      ownership_or_role_verdicts [OF b [of "id_params ''u2''"],
        where p = "''id''" and allowedRoles = "[''admin'']" and rid = "JStr ''u2''"]
      ids ids' none
    by (simp add: admin1_def user1_def)
qed

text \<open>
  C7 as stated fails for the empty string: the extracted identifier is a string and differs
  from \<open>userId\<close>, yet the answer is 400, not 403, because \<open>!resourceId\<close> is true of it.
\<close>

theorem blank_resource_id:
  "resourceId ''id''
     \<lparr>authorization = None,
      reqUser = Some \<lparr>userId = ''u1'', email = ''u1@example.com'', role = ''user''\<rparr>,
      reqParams = no_fields, reqBody = Some blank_id_body\<rparr> = Inr (JStr '''') \<and>
   typeof (JStr '''') = ''string'' \<and>
   requireOwnershipOrRole ''id'' [''admin'']
     \<lparr>authorization = None,
      reqUser = Some \<lparr>userId = ''u1'', email = ''u1@example.com'', role = ''user''\<rparr>,
      reqParams = no_fields, reqBody = Some blank_id_body\<rparr>
   = Inr (Respond 400 ''Resource ID is required'')"
  by (simp add: requireOwnershipOrRole_def resourceId_def paramValue_def no_fields_def
      blank_id_body_def isAdmin_def ADMIN_def)

section \<open>The gate: all-roles and any-role checks\<close>

text \<open>
  C9. \<open>requireAllRoles\<close> and \<open>requireAnyRole\<close> give the same verdict on every request and
  every role list: one hands the request on exactly when the other does, and a rejection
  carries the same status code.
\<close>

theorem all_roles_any_roles:
  "passes (requireAllRoles roles req) = passes (requireAnyRole roles req) \<and>
   (requireAllRoles roles req = Next req) = (requireAnyRole roles req = Next req) \<and>
   status_code (requireAllRoles roles req) = status_code (requireAnyRole roles req)"
  by (simp add: requireAllRoles_def requireAnyRole_def split: option.splits)

theorem all_roles_any_roles_witness:
  "passes (requireAllRoles [''user''] (request_of None (Some admin1)))
     = passes (requireAnyRole [''user''] (request_of None (Some admin1))) \<and>
   status_code (requireAllRoles [''influencer''] (request_of None (Some user1)))
     = status_code (requireAnyRole [''influencer''] (request_of None (Some user1)))"
  using all_roles_any_roles [of "[''user'']" "request_of None (Some admin1)"]
    all_roles_any_roles [of "[''influencer'']" "request_of None (Some user1)"]
  by blast

end
